theory Spec2Isabelle
  imports Complex_Main
begin

section \<open>The task progression of game.js\<close>

text \<open>
  The game keeps its state in module-level variables: the handles of the scene objects,
  \<open>currentTask\<close>, \<open>hasCrystal\<close> and the text of the paragraph inside the element
  \<open>game-info\<close>. Every frame \<open>checkCurrentTaskCompletion\<close> looks at the player's position
  and advances the task. The functions below take the variables as one record and return
  the record they leave behind.

  The calls of \<open>console.log\<close>, the camera and the renderer write none of these
  variables and are left out.
\<close>

subsection \<open>Numbers\<close>

text \<open>
  A JavaScript number is an IEEE 754 binary64 value. A finite number is kept as the real
  number it stands for. An arithmetic operation returns the exact result rounded to the
  nearest binary64 value, a tie going to the even significand, and \<open>Infinity\<close> when
  the rounded result does not fit. \<open>rnd\<close> is this rounding: the significand has 53
  bits, the exponent of a normal number lies between -1022 and 1023, below that the
  spacing stays 2 to the -1074, and \<open>None\<close> stands for an infinite result.
  The distance, which decides the guards, is computed with it. The two additions of
  \<open>spawnCrystal\<close> and the step of the crystal's rotation are written without rounding;
  for the shrine at (15, 5, 20) the two additions are exact.
\<close>

definition roundTiesToEven :: "real \<Rightarrow> int" where
  "roundTiesToEven q =
     (let f = \<lfloor>q\<rfloor>; r = q - of_int f
      in if r < 1/2 then f else if 1/2 < r then f + 1 else if even f then f else f + 1)"

definition exponentOf :: "real \<Rightarrow> int" where
  "exponentOf x = max \<lfloor>log 2 \<bar>x\<bar>\<rfloor> (-1022)"

definition ulp :: "real \<Rightarrow> real" where
  "ulp x = 2 powi (exponentOf x - 52)"

definition overflowThreshold :: real where
  "overflowThreshold = 2 powi 1024"

definition rnd :: "real \<Rightarrow> real option" where
  "rnd x =
     (if x = 0 then Some 0
      else let y = of_int (roundTiesToEven (x / ulp x)) * ulp x
           in if \<bar>y\<bar> < overflowThreshold then Some y else None)"

text \<open>
  The comparison \<open>d < r\<close> of a computed number \<open>d\<close> with a finite \<open>r\<close>: an
  infinite \<open>d\<close> is not less.
\<close>

definition numberLess :: "real option \<Rightarrow> real \<Rightarrow> bool" where
  "numberLess d r = (case d of None \<Rightarrow> False | Some x \<Rightarrow> x < r)"

subsection \<open>Scene objects\<close>

text \<open>A \<open>THREE.Vector3\<close> with finite coordinates.\<close>

record vec3 =
  vx :: real
  vy :: real
  vz :: real

definition Vector3 :: "real \<Rightarrow> real \<Rightarrow> real \<Rightarrow> vec3" where
  "Vector3 a b c = \<lparr>vx = a, vy = b, vz = c\<rparr>"

text \<open>
  \<open>Vector3.distanceToSquared\<close> of three.js computes \<open>dx * dx + dy * dy + dz * dz\<close> from
  the three differences, and \<open>Vector3.distanceTo\<close> is \<open>Math.sqrt\<close> of it. Each of the
  nine operations rounds; the square root is taken to be correctly rounded. Once an
  operation overflows, the squares, the sums and the root are all \<open>Infinity\<close>.
\<close>

definition distanceToSquared :: "vec3 \<Rightarrow> vec3 \<Rightarrow> real option" where
  "distanceToSquared a b =
     Option.bind (rnd (vx a - vx b)) (\<lambda>dx.
     Option.bind (rnd (vy a - vy b)) (\<lambda>dy.
     Option.bind (rnd (vz a - vz b)) (\<lambda>dz.
     Option.bind (rnd (dx * dx)) (\<lambda>xx.
     Option.bind (rnd (dy * dy)) (\<lambda>yy.
     Option.bind (rnd (xx + yy)) (\<lambda>xy.
     Option.bind (rnd (dz * dz)) (\<lambda>zz.
     rnd (xy + zz))))))))"

definition distanceTo :: "vec3 \<Rightarrow> vec3 \<Rightarrow> real option" where
  "distanceTo a b = Option.bind (distanceToSquared a b) (\<lambda>s. rnd (sqrt s))"

text \<open>The part of a material the game writes: its colour (a 24-bit RGB value) and the
  wireframe flag.\<close>

record material =
  color :: nat
  wireframe :: bool

text \<open>
  A \<open>THREE.Object3D\<close> (a mesh, or the player's container, which has no material):
  its position, its rotation about the y axis, its material if it has one, and whether
  its parent is the scene (\<open>obj.parent === scene\<close>). \<open>scene.add\<close> sets the flag and
  \<open>scene.remove\<close> clears it.
\<close>

record object3d =
  position :: vec3
  rotation_y :: real
  material :: "material option"
  in_scene :: bool

subsection \<open>The module's variables\<close>

text \<open>
  An object handle is \<open>None\<close> while the variable is undefined or null. The field
  \<open>taskInfoElement\<close> is the \<open>textContent\<close> of
  \<open>document.getElementById('game-info').querySelector('p')\<close>, and \<open>None\<close> when the
  document has no such element.
\<close>

record game =
  playerObjectContainer :: "object3d option"
  shrineTarget :: "object3d option"
  crystalObject :: "object3d option"
  villageMarker :: "object3d option"
  elderPlaceholder :: "object3d option"
  currentTask :: int
  hasCrystal :: bool
  taskInfoElement :: "string option"

definition completionRadius :: real where
  "completionRadius = 3.0"

text \<open>
  Reading a property of null or undefined throws a \<open>TypeError\<close>. A call that throws
  leaves the variables as they were at the throw, so the error is returned with them.
\<close>

datatype error = TypeError

type_synonym result = "(error \<times> game) + game"

definition andThen :: "result \<Rightarrow> (game \<Rightarrow> result) \<Rightarrow> result" where
  "andThen r f = (case r of Inl e \<Rightarrow> Inl e | Inr g \<Rightarrow> f g)"

definition stateOf :: "result \<Rightarrow> game" where
  "stateOf r = (case r of Inl (e, g) \<Rightarrow> g | Inr g \<Rightarrow> g)"

subsection \<open>spawnCrystal\<close>

definition spawnCrystal :: "game \<Rightarrow> result" where
  "spawnCrystal g =
     (case crystalObject g of
        None \<Rightarrow> Inr g
      | Some c \<Rightarrow>
          if in_scene c then Inr g
          else
            (case shrineTarget g of
               None \<Rightarrow> Inl (TypeError, g)
             | Some s \<Rightarrow>
                 let p0 = position s;
                     p1 = p0\<lparr>vy := vy p0 - 1.0\<rparr>;
                     p2 = p1\<lparr>vx := vx p1 + 1.5\<rparr>
                 in Inr (g\<lparr>crystalObject := Some (c\<lparr>position := p2, in_scene := True\<rparr>)\<rparr>)))"

subsection \<open>updateTaskUI\<close>

definition taskText :: "int \<Rightarrow> bool \<Rightarrow> string" where
  "taskText task crystal =
     (if task = 1 then ''Task 1: Fly to the Ancient Shrine (Yellow Orb)''
      else if task = 2 then ''Task 2: Collect the Sacred Crystal (Blue Crystal)''
      else if task = 3 then
        (if crystal
         then ''Task 3: Deliver the Crystal to the Elder (Grey Capsule) at the Village (Green Platform)''
         else ''Task 3: Find the Elder... (Missing Crystal)'')
      else if task = 4 then ''All Tasks Complete! The tribe is safe for now.''
      else ''No current task.'')"

definition updateTaskUI :: "game \<Rightarrow> result" where
  "updateTaskUI g =
     (case taskInfoElement g of
        None \<Rightarrow> Inl (TypeError, g)
      | Some old \<Rightarrow> Inr (g\<lparr>taskInfoElement := Some (taskText (currentTask g) (hasCrystal g))\<rparr>))"

subsection \<open>checkCurrentTaskCompletion\<close>

text \<open>The conditions of the three \<open>if\<close> statements of the switch.\<close>

definition shrineGuard :: "game \<Rightarrow> vec3 \<Rightarrow> bool" where
  "shrineGuard g playerPos =
     (case shrineTarget g of
        None \<Rightarrow> False
      | Some s \<Rightarrow> numberLess (distanceTo playerPos (position s)) completionRadius)"

definition crystalGuard :: "game \<Rightarrow> vec3 \<Rightarrow> bool" where
  "crystalGuard g playerPos =
     (case crystalObject g of
        None \<Rightarrow> False
      | Some c \<Rightarrow>
          in_scene c \<and> numberLess (distanceTo playerPos (position c)) completionRadius)"

definition elderGuard :: "game \<Rightarrow> vec3 \<Rightarrow> bool" where
  "elderGuard g playerPos =
     (hasCrystal g \<and>
      (case elderPlaceholder g of
         None \<Rightarrow> False
       | Some e \<Rightarrow> numberLess (distanceTo playerPos (position e)) completionRadius))"

text \<open>The bodies of the three \<open>if\<close> statements.\<close>

definition setColor :: "nat \<Rightarrow> object3d \<Rightarrow> object3d" where
  "setColor c obj = obj\<lparr>material := map_option (\<lambda>m. m\<lparr>color := c\<rparr>) (material obj)\<rparr>"

definition setWireframe :: "bool \<Rightarrow> object3d \<Rightarrow> object3d" where
  "setWireframe w obj = obj\<lparr>material := map_option (\<lambda>m. m\<lparr>wireframe := w\<rparr>) (material obj)\<rparr>"

definition shrineReached :: "game \<Rightarrow> result" where
  "shrineReached g =
     (let g1 = g\<lparr>currentTask := 2\<rparr> in
      case shrineTarget g1 of
        None \<Rightarrow> Inl (TypeError, g1)
      | Some s \<Rightarrow>
          let g2 = g1\<lparr>shrineTarget := Some (setWireframe False (setColor 0x00FF00 s))\<rparr>
          in andThen (spawnCrystal g2) updateTaskUI)"

definition sceneRemove :: "object3d option \<Rightarrow> object3d option" where
  "sceneRemove obj = map_option (\<lambda>c. c\<lparr>in_scene := False\<rparr>) obj"

definition crystalCollected :: "game \<Rightarrow> result" where
  "crystalCollected g =
     (let g1 = g\<lparr>currentTask := 3\<rparr>;
          g2 = g1\<lparr>hasCrystal := True\<rparr>;
          g3 = g2\<lparr>crystalObject := sceneRemove (crystalObject g2)\<rparr>
      in updateTaskUI g3)"

definition crystalDelivered :: "game \<Rightarrow> result" where
  "crystalDelivered g =
     (let g1 = g\<lparr>currentTask := 4\<rparr>;
          g2 = g1\<lparr>hasCrystal := False\<rparr>
      in case elderPlaceholder g2 of
           None \<Rightarrow> Inl (TypeError, g2)
         | Some e \<Rightarrow> updateTaskUI (g2\<lparr>elderPlaceholder := Some (setColor 0xA0A0A0 e)\<rparr>))"

text \<open>The switch on \<open>currentTask\<close>.\<close>

definition taskSwitch :: "game \<Rightarrow> vec3 \<Rightarrow> result" where
  "taskSwitch g playerPos =
     (if currentTask g = 1 then
        (if shrineGuard g playerPos then shrineReached g else Inr g)
      else if currentTask g = 2 then
        (if crystalGuard g playerPos then crystalCollected g else Inr g)
      else if currentTask g = 3 then
        (if elderGuard g playerPos then crystalDelivered g else Inr g)
      else Inr g)"

text \<open>The statement after the switch: the crystal spins while it is in the scene.\<close>

definition spinCrystal :: "game \<Rightarrow> game" where
  "spinCrystal g =
     (case crystalObject g of
        None \<Rightarrow> g
      | Some c \<Rightarrow>
          if in_scene c
          then g\<lparr>crystalObject := Some (c\<lparr>rotation_y := rotation_y c + 0.02\<rparr>)\<rparr>
          else g)"

definition checkCurrentTaskCompletion :: "game \<Rightarrow> result" where
  "checkCurrentTaskCompletion g =
     (case playerObjectContainer g of
        None \<Rightarrow> Inr g
      | Some player \<Rightarrow>
          andThen (taskSwitch g (position player)) (\<lambda>g'. Inr (spinCrystal g')))"

subsection \<open>A run of the game\<close>

text \<open>
  The variables as \<open>init\<close> leaves them: the shrine, the village marker and the elder are
  in the scene, the crystal is created and kept out of it, and the paragraph shows the
  loading message.
\<close>

definition init :: game where
  "init =
     \<lparr>playerObjectContainer =
        Some \<lparr>position = Vector3 0 1 0, rotation_y = 0, material = None, in_scene = True\<rparr>,
      shrineTarget =
        Some \<lparr>position = Vector3 15 5 20, rotation_y = 0,
              material = Some \<lparr>color = 0xFFFF00, wireframe = True\<rparr>, in_scene = True\<rparr>,
      crystalObject =
        Some \<lparr>position = Vector3 0 0 0, rotation_y = 0,
              material = Some \<lparr>color = 0x0088FF, wireframe = False\<rparr>, in_scene = False\<rparr>,
      villageMarker =
        Some \<lparr>position = Vector3 (-15) 0.5 (-10), rotation_y = 0,
              material = Some \<lparr>color = 0x00AA00, wireframe = False\<rparr>, in_scene = True\<rparr>,
      elderPlaceholder =
        Some \<lparr>position = Vector3 (-15) 1.75 (-12), rotation_y = 0,
              material = Some \<lparr>color = 0x808080, wireframe = False\<rparr>, in_scene = True\<rparr>,
      currentTask = 1,
      hasCrystal = False,
      taskInfoElement = Some ''Loading assets...''\<rparr>"

text \<open>
  Two things happen after \<open>init\<close>. A frame (\<open>animate\<close>) moves the player and then calls
  \<open>checkCurrentTaskCompletion\<close>; the movement code (keys, frame time, rotation) is not
  modelled, so a frame carries the position at which \<open>updatePlayer\<close> leaves the player, and
  any position is allowed. The loading manager's \<open>onLoad\<close> calls \<open>updateTaskUI\<close>. The
  next frame is requested before anything else in \<open>animate\<close>, so after a throw the run
  goes on from the variables as the throw left them.
\<close>

datatype event = Frame vec3 | AssetsLoaded

definition setPlayerPosition :: "vec3 \<Rightarrow> game \<Rightarrow> game" where
  "setPlayerPosition pos g =
     g\<lparr>playerObjectContainer := map_option (\<lambda>p. p\<lparr>position := pos\<rparr>) (playerObjectContainer g)\<rparr>"

definition animate :: "game \<Rightarrow> vec3 \<Rightarrow> game" where
  "animate g pos =
     (case playerObjectContainer g of
        None \<Rightarrow> g
      | Some p \<Rightarrow> stateOf (checkCurrentTaskCompletion (setPlayerPosition pos g)))"

fun step :: "game \<Rightarrow> event \<Rightarrow> game" where
  "step g (Frame pos) = animate g pos"
| "step g AssetsLoaded = stateOf (updateTaskUI g)"

fun run :: "game \<Rightarrow> event list \<Rightarrow> game" where
  "run g [] = g"
| "run g (e # es) = run (step g e) es"

section \<open>Notions the properties speak of\<close>

text \<open>The Euclidean distance of two points, in exact arithmetic.\<close>

definition euclideanDistance :: "vec3 \<Rightarrow> vec3 \<Rightarrow> real" where
  "euclideanDistance a b = sqrt ((vx a - vx b)\<^sup>2 + (vy a - vy b)\<^sup>2 + (vz a - vz b)\<^sup>2)"

text \<open>The test \<open>crystalObject && crystalObject.parent === scene\<close>, which the source
  writes out in three places.\<close>

definition crystalInScene :: "game \<Rightarrow> bool" where
  "crystalInScene g = (case crystalObject g of None \<Rightarrow> False | Some c \<Rightarrow> in_scene c)"

text \<open>The object whose distance the guard of the current task measures.\<close>

definition guardTarget :: "game \<Rightarrow> object3d option" where
  "guardTarget g =
     (if currentTask g = 1 then shrineTarget g
      else if currentTask g = 2 then crystalObject g
      else if currentTask g = 3 then elderPlaceholder g
      else None)"

text \<open>What the guard of the current task asks besides the target and the distance.\<close>

definition guardPrecondition :: "game \<Rightarrow> bool" where
  "guardPrecondition g =
     (if currentTask g = 2 then crystalInScene g
      else if currentTask g = 3 then hasCrystal g
      else True)"

text \<open>The condition of the \<open>if\<close> that the switch reaches for the current task, when
  there is a player.\<close>

definition guardPasses :: "game \<Rightarrow> bool" where
  "guardPasses g =
     (case playerObjectContainer g of
        None \<Rightarrow> False
      | Some player \<Rightarrow>
          if currentTask g = 1 then shrineGuard g (position player)
          else if currentTask g = 2 then crystalGuard g (position player)
          else if currentTask g = 3 then elderGuard g (position player)
          else False)"

text \<open>A call makes a transition when it leaves another task than it found.\<close>

definition transitions :: "game \<Rightarrow> bool" where
  "transitions g \<longleftrightarrow> currentTask (stateOf (checkCurrentTaskCompletion g)) \<noteq> currentTask g"

text \<open>
  What every state of a run satisfies: all objects and the paragraph exist, the shrine
  and the elder stay where \<open>init\<close> put them and keep a material, the task is one of 1 to
  4, the crystal is in the scene exactly during task 2 (and then lies beside the shrine),
  and the player holds the crystal exactly during task 3.
\<close>

definition ready :: "game \<Rightarrow> bool" where
  "ready g \<longleftrightarrow>
     (\<exists>p s c e t ms me.
        playerObjectContainer g = Some p \<and> shrineTarget g = Some s \<and>
        crystalObject g = Some c \<and> elderPlaceholder g = Some e \<and>
        taskInfoElement g = Some t \<and>
        position s = Vector3 15 5 20 \<and> material s = Some ms \<and>
        position e = Vector3 (-15) 1.75 (-12) \<and> material e = Some me \<and>
        (currentTask g = 1 \<or> currentTask g = 2 \<or> currentTask g = 3 \<or> currentTask g = 4) \<and>
        in_scene c = (currentTask g = 2) \<and>
        hasCrystal g = (currentTask g = 3) \<and>
        (currentTask g = 2 \<longrightarrow> position c = Vector3 16.5 4 20))"

section \<open>Properties\<close>

subsection \<open>Rounding\<close>

text \<open>A number within half a unit of an integer rounds to that integer.\<close>

lemma roundTiesToEven_near: "\<bar>q - of_int k\<bar> < 1/2 \<Longrightarrow> roundTiesToEven q = k"
proof -
  assume a: "\<bar>q - of_int k\<bar> < 1/2"
  show ?thesis
  proof (cases "of_int k \<le> q")
    case True
    then have "\<lfloor>q\<rfloor> = k" using a by (intro floor_unique) auto
    then show ?thesis using a True by (simp add: roundTiesToEven_def Let_def)
  next
    case False
    then have f: "\<lfloor>q\<rfloor> = k - 1" using a by (intro floor_unique) auto
    have "\<not> q - of_int (k - 1) < 1/2" "1/2 < q - of_int (k - 1)" using a False by auto
    then show ?thesis unfolding roundTiesToEven_def Let_def f by simp
  qed
qed

lemma roundTiesToEven_of_int: "roundTiesToEven (of_int k) = k"
  by (rule roundTiesToEven_near) simp


text \<open>The binary exponent of a number.\<close>

lemma floor_log2_eq:
  assumes "2 powi e \<le> \<bar>x\<bar>" "\<bar>x\<bar> < 2 powi (e + 1)"
  shows "\<lfloor>log 2 \<bar>x\<bar>\<rfloor> = e"
proof -
  have pos: "0 < \<bar>x\<bar>" using assms(1) by (smt (verit) zero_less_power_int)
  have "(2::real) powr real_of_int e = 2 powi e" "(2::real) powr (real_of_int e + 1) = 2 powi (e + 1)"
    using powr_real_of_int' [of "2::real" e] powr_real_of_int' [of "2::real" "e + 1"] by simp_all
  then show ?thesis using assms pos by (simp add: floor_log_eq_powr_iff)
qed

lemma floor_log2_bounds:
  assumes "x \<noteq> 0"
  shows "2 powi \<lfloor>log 2 \<bar>x\<bar>\<rfloor> \<le> \<bar>x\<bar> \<and> \<bar>x\<bar> < 2 powi (\<lfloor>log 2 \<bar>x\<bar>\<rfloor> + 1)"
proof -
  have pos: "0 < \<bar>x\<bar>" using assms by simp
  define k where "k = \<lfloor>log 2 \<bar>x\<bar>\<rfloor>"
  have "(2::real) powr real_of_int k = 2 powi k" "(2::real) powr (real_of_int k + 1) = 2 powi (k + 1)"
    using powr_real_of_int' [of "2::real" k] powr_real_of_int' [of "2::real" "k + 1"] by simp_all
  moreover have "2 powr real_of_int k \<le> \<bar>x\<bar> \<and> \<bar>x\<bar> < 2 powr (real_of_int k + 1)"
    using floor_log_eq_powr_iff [of "\<bar>x\<bar>" 2 k] pos k_def by simp
  ultimately show ?thesis unfolding k_def by simp
qed

lemma exponentOf_eq:
  assumes "2 powi e \<le> \<bar>x\<bar>" "\<bar>x\<bar> < 2 powi (e + 1)" "-1022 \<le> e"
  shows "exponentOf x = e"
  using floor_log2_eq [OF assms(1,2)] assms(3) by (simp add: exponentOf_def)

text \<open>
  Rounding a number whose binade is known; a number with a significand of at most 53
  bits is not changed; and rounding never falls below a power of two that the number
  reaches.
\<close>

lemma rnd_nearest:
  assumes "2 powi e \<le> \<bar>x\<bar>" "\<bar>x\<bar> < 2 powi (e + 1)" "-1022 \<le> e"
    and "\<bar>x / 2 powi (e - 52) - of_int k\<bar> < 1/2"
    and "\<bar>of_int k * 2 powi (e - 52)\<bar> < overflowThreshold"
  shows "rnd x = Some (of_int k * 2 powi (e - 52))"
proof -
  have nz: "x \<noteq> 0" using assms(1) by (smt (verit) zero_less_power_int)
  have u: "ulp x = 2 powi (e - 52)" by (simp add: ulp_def exponentOf_eq [OF assms(1,2,3)])
  have r: "roundTiesToEven (x / 2 powi (e - 52)) = k" by (rule roundTiesToEven_near [OF assms(4)])
  show ?thesis using nz assms(5) by (simp add: rnd_def Let_def u r)
qed

lemma rnd_exact:
  assumes "\<bar>m\<bar> < 2 ^ 53" "-1074 \<le> n" "n \<le> 971"
  shows "rnd (of_int m * 2 powi n) = Some (of_int m * 2 powi n)"
proof (cases "m = 0")
  case True
  then show ?thesis by (simp add: rnd_def)
next
  case False
  define x :: real where "x = of_int m * 2 powi n"
  have nz: "x \<noteq> 0" using False by (simp add: x_def)
  define E where "E = exponentOf x"
  have absx: "\<bar>x\<bar> = of_int \<bar>m\<bar> * 2 powi n" by (simp add: x_def abs_mult)
  have "of_int \<bar>m\<bar> < (2::real) ^ 53" using assms(1) by (metis of_int_less_numeral_power_cancel_iff)
  then have lt: "\<bar>x\<bar> < 2 powi (53 + n)"
    unfolding absx by (simp add: power_int_add)
  have b: "2 powi \<lfloor>log 2 \<bar>x\<bar>\<rfloor> \<le> \<bar>x\<bar>" using floor_log2_bounds [OF nz] by simp
  have "(2::real) powi \<lfloor>log 2 \<bar>x\<bar>\<rfloor> < 2 powi (53 + n)" using b lt by simp
  then have "\<lfloor>log 2 \<bar>x\<bar>\<rfloor> < 53 + n"
    by (smt (verit) power_int_increasing)
  then have En: "E - 52 \<le> n" using assms(2) by (simp add: E_def exponentOf_def)
  define j where "j = nat (n - (E - 52))"
  have n_eq: "n = (E - 52) + int j" using En by (simp add: j_def)
  have u: "ulp x = 2 powi (E - 52)" by (simp add: ulp_def E_def)
  have "(2::real) powi n = 2 powi (E - 52) * 2 powi (int j)"
    by (subst n_eq) (simp add: power_int_add)
  then have xq: "x = of_int (m * 2 ^ j) * ulp x" unfolding u by (simp add: x_def)
  moreover have "ulp x \<noteq> 0" by (simp add: u)
  ultimately have q: "x / ulp x = of_int (m * 2 ^ j)" by (metis nonzero_mult_div_cancel_right)
  have r: "roundTiesToEven (x / ulp x) = m * 2 ^ j" unfolding q by (rule roundTiesToEven_of_int)
  have y: "of_int (roundTiesToEven (x / ulp x)) * ulp x = x" unfolding r using xq by simp
  have "\<bar>x\<bar> < 2 powi (53 + n)" by (rule lt)
  also have "\<dots> \<le> 2 powi 1024" using assms(3) by (intro power_int_increasing) auto
  finally have fin: "\<bar>x\<bar> < overflowThreshold" by (simp only: overflowThreshold_def)
  show ?thesis unfolding x_def [symmetric] using nz fin by (simp add: rnd_def Let_def y)
qed


lemma rnd_zero: "rnd 0 = Some 0"
  by (simp add: rnd_def)

lemma rnd_int: "\<bar>m\<bar> < 2 ^ 53 \<Longrightarrow> rnd (of_int m) = Some (of_int m)"
  using rnd_exact [of m 0] by simp

subsection \<open>Computed distances\<close>

lemma distanceTo_self: "distanceTo a a = Some 0"
  by (simp add: distanceTo_def distanceToSquared_def rnd_zero)

lemma distanceToSquared_steps:
  assumes "rnd (vx a - vx b) = Some dx" "rnd (vy a - vy b) = Some dy"
    and "rnd (vz a - vz b) = Some dz"
    and "rnd (dx * dx) = Some xx" "rnd (dy * dy) = Some yy" "rnd (xx + yy) = Some xy"
    and "rnd (dz * dz) = Some zz" "rnd (xy + zz) = Some s"
  shows "distanceToSquared a b = Some s"
  by (simp add: distanceToSquared_def assms)

lemma distanceTo_steps:
  assumes "distanceToSquared a b = Some s" "rnd (sqrt s) = Some d"
  shows "distanceTo a b = Some d"
  by (simp add: distanceTo_def assms)

lemma sqrt_square: "0 \<le> r \<Longrightarrow> sqrt (r * r) = r"
  by simp

lemma distanceTo_axis:
  assumes m: "\<bar>m\<bar> < 2 ^ 26"
    and d: "vx a - vx b = of_int m" "vy a - vy b = 0" "vz a - vz b = 0"
  shows "distanceTo a b = Some (of_int \<bar>m\<bar>)"
proof -
  have sq: "\<bar>m * m\<bar> < 2 ^ 53"
  proof -
    have "\<bar>m\<bar> * \<bar>m\<bar> < 2 ^ 26 * 2 ^ 26"
      using m by (intro mult_strict_mono) auto
    then show ?thesis by (simp add: abs_mult)
  qed
  have m53: "\<bar>m\<bar> < 2 ^ 53" "\<bar>\<bar>m\<bar>\<bar> < 2 ^ 53" using m by simp_all
  have mm: "rnd (of_int (m * m)) = Some (of_int (m * m))" by (rule rnd_int [OF sq])
  have "distanceToSquared a b = Some (of_int (m * m))"
  proof (rule distanceToSquared_steps)
    show "rnd (vx a - vx b) = Some (of_int m)" unfolding d by (rule rnd_int [OF m53(1)])
    show "rnd (vy a - vy b) = Some 0" "rnd (vz a - vz b) = Some 0"
      unfolding d by (rule rnd_zero)+
    show "rnd (of_int m * of_int m) = Some (of_int (m * m))" using mm by simp
    show "rnd (0 * 0) = Some 0" using rnd_zero by simp
    show "rnd (of_int (m * m) + 0) = Some (of_int (m * m))" using mm by simp
    show "rnd (0 * 0) = Some 0" using rnd_zero by simp
    show "rnd (of_int (m * m) + 0) = Some (of_int (m * m))" using mm by simp
  qed
  moreover have "rnd (sqrt (of_int (m * m))) = Some (of_int \<bar>m\<bar>)"
  proof -
    have "sqrt (real_of_int (m * m)) = real_of_int \<bar>m\<bar>" by simp
    then show ?thesis using rnd_int [OF m53(2)] by (simp only:)
  qed
  ultimately show ?thesis by (rule distanceTo_steps)
qed

text \<open>
  Two points whose differences are 5 * 2^-27, -3 + 2^-51 and 0 are closer than 3, but
  the square of the second difference rounds to 9 - 2^-49 and the sum of the squares
  rounds to 9, so the computed distance is 3.
\<close>

lemma distanceTo_rounds_up_to_three:
  assumes "vx a - vx b = 5 * 2 powi (-27)" "vy a - vy b = - 3 + 2 powi (-51)" "vz a - vz b = 0"
  shows "distanceTo a b = Some 3"
proof -
  have nine: "rnd 9 = Some 9" using rnd_int [of 9] by simp
  have "distanceToSquared a b = Some 9"
  proof (rule distanceToSquared_steps)
    show "rnd (vx a - vx b) = Some (5 * 2 powi (-27))"
      unfolding assms using rnd_exact [of 5 "-27"] by simp
    show "rnd (vy a - vy b) = Some (- 3 + 2 powi (-51))"
      unfolding assms using rnd_exact [of "- 6755399441055743" "-51"] by simp
    show "rnd (vz a - vz b) = Some 0" unfolding assms by (rule rnd_zero)
    show "rnd ((5 * 2 powi (-27)) * (5 * 2 powi (-27))) = Some (25 * 2 powi (-54))"
      using rnd_exact [of 25 "-54"] by simp
    show "rnd ((- 3 + 2 powi (-51)) * (- 3 + 2 powi (-51))) = Some (9 - 2 powi (-49))"
      using rnd_nearest [of 3 "(- 3 + 2 powi (-51)) * (- 3 + 2 powi (-51))" 5066549580791807]
      by (simp add: overflowThreshold_def)
    show "rnd (25 * 2 powi (-54) + (9 - 2 powi (-49))) = Some 9"
      using rnd_nearest [of 3 "25 * 2 powi (-54) + (9 - 2 powi (-49))" 5066549580791808]
      by (simp add: overflowThreshold_def)
    show "rnd (0 * 0) = Some 0" using rnd_zero by simp
    show "rnd (9 + 0) = Some 9" using nine by simp
  qed
  moreover have "rnd (sqrt 9) = Some 3"
    using rnd_int [of 3] real_sqrt_abs [of 3] by simp
  ultimately show ?thesis by (rule distanceTo_steps)
qed

lemma euclidean_below_three:
  assumes "vx a - vx b = 5 * 2 powi (-27)" "vy a - vy b = - 3 + 2 powi (-51)" "vz a - vz b = 0"
  shows "euclideanDistance a b < 3"
proof -
  have "(5 * 2 powi (-27))\<^sup>2 + (- 3 + 2 powi (-51))\<^sup>2 + 0\<^sup>2 < (9::real)"
    by (simp add: power2_eq_square)
  then have "sqrt ((5 * 2 powi (-27))\<^sup>2 + (- 3 + 2 powi (-51))\<^sup>2 + 0\<^sup>2) < sqrt 9"
    by (simp only: real_sqrt_less_iff)
  moreover have "sqrt 9 = 3" using real_sqrt_abs [of 3] by simp
  ultimately show ?thesis by (simp add: euclideanDistance_def assms)
qed


lemma near_self: "numberLess (distanceTo a a) completionRadius"
  by (simp add: distanceTo_self numberLess_def completionRadius_def)

lemmas guard_defs = shrineGuard_def crystalGuard_def elderGuard_def

lemmas effect_defs = shrineReached_def crystalCollected_def crystalDelivered_def
  spawnCrystal_def updateTaskUI_def setColor_def setWireframe_def sceneRemove_def
  andThen_def Let_def

lemmas check_defs = checkCurrentTaskCompletion_def taskSwitch_def spinCrystal_def

lemmas run_defs = animate_def setPlayerPosition_def stateOf_def init_def Vector3_def
  taskText_def

subsection \<open>The states of a run\<close>

lemma ready_init: "ready init"
  by (simp add: ready_def init_def)

lemma ready_updateTaskUI: "ready g \<Longrightarrow> ready (stateOf (updateTaskUI g))"
  by (auto simp: ready_def updateTaskUI_def stateOf_def)

lemma ready_setPlayerPosition: "ready g \<Longrightarrow> ready (setPlayerPosition pos g)"
  by (auto simp: ready_def setPlayerPosition_def)

lemma ready_check: "ready g \<Longrightarrow> ready (stateOf (checkCurrentTaskCompletion g))"
  unfolding ready_def
  by (elim exE conjE disjE)
     (auto simp: check_defs guard_defs effect_defs stateOf_def Vector3_def)

lemma ready_animate: "ready g \<Longrightarrow> ready (animate g pos)"
  by (auto simp: animate_def ready_check ready_setPlayerPosition split: option.splits)

lemma ready_step: "ready g \<Longrightarrow> ready (step g ev)"
  by (cases ev) (simp_all add: ready_animate ready_updateTaskUI)

lemma ready_run: "ready g \<Longrightarrow> ready (run g evs)"
  by (induction evs arbitrary: g) (simp_all add: ready_step)

lemma ready_run_init: "ready (run init evs)"
  by (rule ready_run [OF ready_init])

lemma run_append: "run g (evs @ evs') = run (run g evs) evs'"
  by (induction evs arbitrary: g) simp_all

lemma step_task:
  "ready g \<Longrightarrow> currentTask (step g ev) = currentTask g \<or> currentTask (step g ev) = currentTask g + 1"
  unfolding ready_def
  by (cases ev)
     (auto simp: check_defs guard_defs effect_defs animate_def setPlayerPosition_def stateOf_def)

lemma task4_stays:
  "ready g \<Longrightarrow> currentTask g = 4 \<Longrightarrow> currentTask (run g evs) = 4"
proof (induction evs arbitrary: g)
  case Nil
  then show ?case by simp
next
  case (Cons ev evs)
  have "currentTask (step g ev) = 4"
    using Cons.prems unfolding ready_def
    by (cases ev)
       (auto simp: check_defs guard_defs effect_defs animate_def setPlayerPosition_def stateOf_def)
  moreover have "ready (step g ev)" using Cons.prems(1) by (rule ready_step)
  ultimately show ?case using Cons.IH by simp
qed

lemma transitions_iff_guardPasses: "transitions g \<longleftrightarrow> guardPasses g"
  by (auto simp: transitions_def guardPasses_def check_defs guard_defs effect_defs stateOf_def
      split: option.splits)

subsection \<open>Three frames that complete the game\<close>

text \<open>The player is put on the shrine, then on the crystal, then on the elder.\<close>

lemma run_to_task2:
  "run init [Frame (Vector3 15 5 20)] =
     init\<lparr>playerObjectContainer :=
            Some \<lparr>position = Vector3 15 5 20, rotation_y = 0, material = None, in_scene = True\<rparr>,
          shrineTarget :=
            Some \<lparr>position = Vector3 15 5 20, rotation_y = 0,
                  material = Some \<lparr>color = 0x00FF00, wireframe = False\<rparr>, in_scene = True\<rparr>,
          crystalObject :=
            Some \<lparr>position = Vector3 16.5 4 20, rotation_y = 0.02,
                  material = Some \<lparr>color = 0x0088FF, wireframe = False\<rparr>, in_scene = True\<rparr>,
          currentTask := 2,
          taskInfoElement := Some ''Task 2: Collect the Sacred Crystal (Blue Crystal)''\<rparr>"
  by (simp add: run_defs check_defs guard_defs effect_defs near_self)

lemma run_to_task3:
  "run init [Frame (Vector3 15 5 20), Frame (Vector3 16.5 4 20)] =
     init\<lparr>playerObjectContainer :=
            Some \<lparr>position = Vector3 16.5 4 20, rotation_y = 0, material = None, in_scene = True\<rparr>,
          shrineTarget :=
            Some \<lparr>position = Vector3 15 5 20, rotation_y = 0,
                  material = Some \<lparr>color = 0x00FF00, wireframe = False\<rparr>, in_scene = True\<rparr>,
          crystalObject :=
            Some \<lparr>position = Vector3 16.5 4 20, rotation_y = 0.02,
                  material = Some \<lparr>color = 0x0088FF, wireframe = False\<rparr>, in_scene = False\<rparr>,
          currentTask := 3,
          hasCrystal := True,
          taskInfoElement := Some ''Task 3: Deliver the Crystal to the Elder (Grey Capsule) at the Village (Green Platform)''\<rparr>"
  by (simp add: run_defs check_defs guard_defs effect_defs near_self)

lemma run_to_task4:
  "run init [Frame (Vector3 15 5 20), Frame (Vector3 16.5 4 20), Frame (Vector3 (-15) 1.75 (-12))] =
     init\<lparr>playerObjectContainer :=
            Some \<lparr>position = Vector3 (-15) 1.75 (-12), rotation_y = 0, material = None, in_scene = True\<rparr>,
          shrineTarget :=
            Some \<lparr>position = Vector3 15 5 20, rotation_y = 0,
                  material = Some \<lparr>color = 0x00FF00, wireframe = False\<rparr>, in_scene = True\<rparr>,
          crystalObject :=
            Some \<lparr>position = Vector3 16.5 4 20, rotation_y = 0.02,
                  material = Some \<lparr>color = 0x0088FF, wireframe = False\<rparr>, in_scene = False\<rparr>,
          elderPlaceholder :=
            Some \<lparr>position = Vector3 (-15) 1.75 (-12), rotation_y = 0,
                  material = Some \<lparr>color = 0xA0A0A0, wireframe = False\<rparr>, in_scene = True\<rparr>,
          currentTask := 4,
          hasCrystal := False,
          taskInfoElement := Some ''All Tasks Complete! The tribe is safe for now.''\<rparr>"
  by (simp add: run_defs check_defs guard_defs effect_defs near_self)

subsection \<open>Reaching the shrine\<close>

text \<open>
  C1. In every state of a run in which the task is 1, the shrine is at (15, 5, 20), and a
  frame in which the distance from the player to it, as \<open>distanceTo\<close> computes it, is
  less than 3.0 returns without an error, sets the task to 2, leaves the shrine solid
  green (colour 0x00FF00, not wireframe), puts the crystal into the scene at
  (16.5, 4, 20) and shows the text of task 2.
\<close>

theorem shrine_reached_in_run:
  assumes task: "currentTask (run init evs) = 1"
    and near: "numberLess (distanceTo pos (Vector3 15 5 20)) 3.0"
  shows "map_option position (shrineTarget (run init evs)) = Some (Vector3 15 5 20) \<and>
         checkCurrentTaskCompletion (setPlayerPosition pos (run init evs))
           = Inr (animate (run init evs) pos) \<and>
         currentTask (animate (run init evs) pos) = 2 \<and>
         map_option material (shrineTarget (animate (run init evs) pos))
           = Some (Some \<lparr>color = 0x00FF00, wireframe = False\<rparr>) \<and>
         map_option in_scene (crystalObject (animate (run init evs) pos)) = Some True \<and>
         map_option position (crystalObject (animate (run init evs) pos))
           = Some (Vector3 16.5 4 20) \<and>
         taskInfoElement (animate (run init evs) pos)
           = Some ''Task 2: Collect the Sacred Crystal (Blue Crystal)''"
proof -
  define g where "g = run init evs"
  have "ready g" unfolding g_def by (rule ready_run_init)
  then obtain p s c e t ms me where
    h: "playerObjectContainer g = Some p" "shrineTarget g = Some s"
       "crystalObject g = Some c" "elderPlaceholder g = Some e"
       "taskInfoElement g = Some t" "position s = Vector3 15 5 20" "material s = Some ms"
       "in_scene c = (currentTask g = 2)"
    unfolding ready_def by blast
  have t1: "currentTask g = 1" using task by (simp add: g_def)
  have n: "numberLess (distanceTo pos (position s)) completionRadius"
    using near h by (simp add: completionRadius_def)
  show ?thesis
    unfolding g_def [symmetric]
    using h t1 n
    by (simp add: check_defs guard_defs effect_defs animate_def setPlayerPosition_def
        stateOf_def taskText_def Vector3_def)
qed

text \<open>The first frame of a run, with the player at the shrine itself.\<close>

theorem shrine_reached_in_run_witness:
  "currentTask (run init []) = 1 \<and>
   numberLess (distanceTo (Vector3 15 5 20) (Vector3 15 5 20)) 3.0 \<and>
   currentTask (animate (run init []) (Vector3 15 5 20)) = 2 \<and>
   map_option position (crystalObject (animate (run init []) (Vector3 15 5 20)))
     = Some (Vector3 16.5 4 20) \<and>
   taskInfoElement (animate (run init []) (Vector3 15 5 20))
     = Some ''Task 2: Collect the Sacred Crystal (Blue Crystal)''"
proof -
  have t: "currentTask (run init []) = 1" by (simp add: init_def)
  have n: "numberLess (distanceTo (Vector3 15 5 20) (Vector3 15 5 20)) 3.0"
    using near_self [of "Vector3 15 5 20"] by (simp add: completionRadius_def)
  show ?thesis using shrine_reached_in_run [OF t n] t n by simp
qed

text \<open>
  The Euclidean distance does not decide. In the first frame of a run, with the player at
  (15 + 5 * 2^-27, 2 + 2^-51, 20), the player is closer than 3.0 to the shrine, the
  computed distance is 3.0 and the task stays 1.
\<close>

theorem shrine_within_radius_counterexample:
  "currentTask (run init []) = 1 \<and>
   euclideanDistance (Vector3 (15 + 5 * 2 powi (-27)) (2 + 2 powi (-51)) 20) (Vector3 15 5 20)
     < 3.0 \<and>
   distanceTo (Vector3 (15 + 5 * 2 powi (-27)) (2 + 2 powi (-51)) 20) (Vector3 15 5 20)
     = Some 3.0 \<and>
   currentTask (animate (run init []) (Vector3 (15 + 5 * 2 powi (-27)) (2 + 2 powi (-51)) 20))
     = 1"
proof -
  let ?v = "Vector3 (15 + 5 * 2 powi (-27)) (2 + 2 powi (-51)) 20"
  have d: "vx ?v - vx (Vector3 15 5 20) = 5 * 2 powi (-27)"
    "vy ?v - vy (Vector3 15 5 20) = - 3 + 2 powi (-51)"
    "vz ?v - vz (Vector3 15 5 20) = 0"
    by (simp_all add: Vector3_def)
  have e: "euclideanDistance ?v (Vector3 15 5 20) < 3.0"
    using euclidean_below_three [OF d] by simp
  have c: "distanceTo ?v (Vector3 15 5 20) = Some 3.0"
    using distanceTo_rounds_up_to_three [OF d] by simp
  have n: "\<not> numberLess (distanceTo ?v (Vector3 15 5 20)) completionRadius"
    unfolding c by (simp add: numberLess_def completionRadius_def)
  have a: "currentTask (animate (run init []) ?v) = 1"
    using n
    by (simp add: animate_def setPlayerPosition_def stateOf_def init_def check_defs
        shrineGuard_def andThen_def)
  show ?thesis using e c a by (simp add: init_def)
qed

subsection \<open>Holding the crystal\<close>

text \<open>
  C2. In every state of a run, if the player holds the crystal (\<open>hasCrystal\<close>) then the
  task is 3.
\<close>

theorem hasCrystal_only_in_task3:
  "hasCrystal (run init evs) \<longrightarrow> currentTask (run init evs) = 3"
  using ready_run_init [of evs] by (auto simp: ready_def)

theorem hasCrystal_only_in_task3_witness:
  "hasCrystal (run init [Frame (Vector3 15 5 20), Frame (Vector3 16.5 4 20)]) \<and>
   currentTask (run init [Frame (Vector3 15 5 20), Frame (Vector3 16.5 4 20)]) = 3"
proof -
  have h: "hasCrystal (run init [Frame (Vector3 15 5 20), Frame (Vector3 16.5 4 20)])"
    by (simp only: run_to_task3) (simp add: init_def)
  with hasCrystal_only_in_task3 [of "[Frame (Vector3 15 5 20), Frame (Vector3 16.5 4 20)]"]
  show ?thesis by blast
qed

subsection \<open>The completion radius is exclusive\<close>

text \<open>
  C3. Take any state with a player in which the guard of the current task has a target
  and the rest of its condition holds (in task 2 the crystal is in the scene, in task 3
  the player holds the crystal). Then a call makes a transition exactly when the distance
  from the player to the target, as \<open>distanceTo\<close> computes it, is less than 3.0: when
  the computed distance is 3.0 or more, or infinite, it makes none, and when it is below
  3.0 it makes one.
\<close>

theorem transition_iff_within_radius:
  assumes "playerObjectContainer g = Some p"
    and "guardTarget g = Some t"
    and "guardPrecondition g"
  shows "(transitions g \<longleftrightarrow> numberLess (distanceTo (position p) (position t)) 3.0) \<and>
         (distanceTo (position p) (position t) = Some d \<and> 3.0 \<le> d \<longrightarrow> \<not> transitions g) \<and>
         (distanceTo (position p) (position t) = None \<longrightarrow> \<not> transitions g) \<and>
         (distanceTo (position p) (position t) = Some d \<and> d < 3.0 \<longrightarrow> transitions g)"
proof -
  have "transitions g \<longleftrightarrow> numberLess (distanceTo (position p) (position t)) 3.0"
    using assms
    by (auto simp: transitions_iff_guardPasses guardPasses_def guardTarget_def
        guardPrecondition_def crystalInScene_def guard_defs completionRadius_def
        split: if_splits)
  then show ?thesis by (auto simp: numberLess_def)
qed

text \<open>From \<open>init\<close>, with the player 2, 3 and 4 units beside the shrine.\<close>

lemma beside_shrine:
  "\<bar>m\<bar> < 2 ^ 26 \<Longrightarrow>
   distanceTo (Vector3 (15 + of_int m) 5 20) (Vector3 15 5 20) = Some (of_int \<bar>m\<bar>)"
  by (rule distanceTo_axis) (simp_all add: Vector3_def)

theorem transition_iff_within_radius_witness:
  "distanceTo (Vector3 17 5 20) (Vector3 15 5 20) = Some 2 \<and>
   transitions (setPlayerPosition (Vector3 17 5 20) init) \<and>
   distanceTo (Vector3 18 5 20) (Vector3 15 5 20) = Some 3.0 \<and>
   \<not> transitions (setPlayerPosition (Vector3 18 5 20) init) \<and>
   distanceTo (Vector3 19 5 20) (Vector3 15 5 20) = Some 4 \<and>
   \<not> transitions (setPlayerPosition (Vector3 19 5 20) init)"
proof -
  let ?p = "\<lambda>v. \<lparr>position = v, rotation_y = 0, material = None, in_scene = True\<rparr>"
  let ?s = "\<lparr>position = Vector3 15 5 20, rotation_y = 0,
             material = Some \<lparr>color = 0xFFFF00, wireframe = True\<rparr>, in_scene = True\<rparr>"
  have a: "playerObjectContainer (setPlayerPosition v init) = Some (?p v)" for v
    by (simp add: setPlayerPosition_def init_def)
  have b: "guardTarget (setPlayerPosition v init) = Some ?s" for v
    by (simp add: guardTarget_def setPlayerPosition_def init_def)
  have c: "guardPrecondition (setPlayerPosition v init)" for v
    by (simp add: guardPrecondition_def setPlayerPosition_def init_def)
  have d2: "distanceTo (Vector3 17 5 20) (Vector3 15 5 20) = Some 2"
    using beside_shrine [of 2] by simp
  have d3: "distanceTo (Vector3 18 5 20) (Vector3 15 5 20) = Some 3.0"
    using beside_shrine [of 3] by simp
  have d4: "distanceTo (Vector3 19 5 20) (Vector3 15 5 20) = Some 4"
    using beside_shrine [of 4] by simp
  show ?thesis
    using transition_iff_within_radius [OF a b c, of "Vector3 17 5 20" 2]
      transition_iff_within_radius [OF a b c, of "Vector3 18 5 20" 3]
      transition_iff_within_radius [OF a b c, of "Vector3 19 5 20" 4]
      d2 d3 d4
    by (simp add: numberLess_def)
qed

text \<open>
  The Euclidean distance alone does not decide. In task 3 without the crystal, the player
  stands on the elder and the task stays 3. And from \<open>init\<close>, with the player at
  (15 + 5 * 2^-27, 2 + 2^-51, 20), the player is closer than 3.0 to the shrine, the
  computed distance is 3.0 and there is no transition.
\<close>

theorem distance_alone_counterexample:
  "currentTask (setPlayerPosition (Vector3 (-15) 1.75 (-12)) (init\<lparr>currentTask := 3\<rparr>)) = 3 \<and>
   map_option position (guardTarget (setPlayerPosition (Vector3 (-15) 1.75 (-12)) (init\<lparr>currentTask := 3\<rparr>)))
     = Some (Vector3 (-15) 1.75 (-12)) \<and>
   euclideanDistance (Vector3 (-15) 1.75 (-12)) (Vector3 (-15) 1.75 (-12)) < 3.0 \<and>
   \<not> transitions (setPlayerPosition (Vector3 (-15) 1.75 (-12)) (init\<lparr>currentTask := 3\<rparr>)) \<and>
   map_option position (guardTarget
      (setPlayerPosition (Vector3 (15 + 5 * 2 powi (-27)) (2 + 2 powi (-51)) 20) init))
     = Some (Vector3 15 5 20) \<and>
   guardPrecondition (setPlayerPosition (Vector3 (15 + 5 * 2 powi (-27)) (2 + 2 powi (-51)) 20) init) \<and>
   euclideanDistance (Vector3 (15 + 5 * 2 powi (-27)) (2 + 2 powi (-51)) 20) (Vector3 15 5 20)
     < 3.0 \<and>
   \<not> transitions (setPlayerPosition (Vector3 (15 + 5 * 2 powi (-27)) (2 + 2 powi (-51)) 20) init)"
proof -
  let ?v = "Vector3 (15 + 5 * 2 powi (-27)) (2 + 2 powi (-51)) 20"
  let ?w = "Vector3 (-15) 1.75 (-12)"
  have first: "currentTask (setPlayerPosition ?w (init\<lparr>currentTask := 3\<rparr>)) = 3 \<and>
      map_option position (guardTarget (setPlayerPosition ?w (init\<lparr>currentTask := 3\<rparr>))) = Some ?w \<and>
      \<not> transitions (setPlayerPosition ?w (init\<lparr>currentTask := 3\<rparr>))"
    by (simp add: transitions_iff_guardPasses guardPasses_def guardTarget_def elderGuard_def
        setPlayerPosition_def init_def)
  have e0: "euclideanDistance ?w ?w < 3.0" by (simp add: euclideanDistance_def)
  have d: "vx ?v - vx (Vector3 15 5 20) = 5 * 2 powi (-27)"
    "vy ?v - vy (Vector3 15 5 20) = - 3 + 2 powi (-51)"
    "vz ?v - vz (Vector3 15 5 20) = 0"
    by (simp_all add: Vector3_def)
  have e: "euclideanDistance ?v (Vector3 15 5 20) < 3.0"
    using euclidean_below_three [OF d] by simp
  have n: "\<not> numberLess (distanceTo ?v (Vector3 15 5 20)) completionRadius"
    unfolding distanceTo_rounds_up_to_three [OF d]
    by (simp add: numberLess_def completionRadius_def)
  have second: "map_option position (guardTarget (setPlayerPosition ?v init)) = Some (Vector3 15 5 20) \<and>
      guardPrecondition (setPlayerPosition ?v init) \<and>
      \<not> transitions (setPlayerPosition ?v init)"
    using n
    by (simp add: transitions_iff_guardPasses guardPasses_def guardTarget_def
        guardPrecondition_def shrineGuard_def setPlayerPosition_def init_def)
  show ?thesis using first e0 second e by simp
qed

subsection \<open>A call whose guard fails\<close>




subsection \<open>Delivering the crystal\<close>




subsection \<open>A crystal that is not in the scene\<close>

text \<open>
  C6. In task 2, when the crystal is missing or not in the scene, a call returns without
  an error and changes nothing, wherever the player is.
\<close>

theorem hidden_crystal_no_transition:
  assumes "currentTask g = 2" and "\<not> crystalInScene g"
  shows "checkCurrentTaskCompletion g = Inr g \<and>
         checkCurrentTaskCompletion (setPlayerPosition pos g) = Inr (setPlayerPosition pos g)"
  using assms
  by (auto simp: check_defs guard_defs andThen_def crystalInScene_def setPlayerPosition_def
      split: option.splits)

theorem hidden_crystal_no_transition_witness:
  "currentTask (init\<lparr>currentTask := 2\<rparr>) = 2 \<and> \<not> crystalInScene (init\<lparr>currentTask := 2\<rparr>) \<and>
   map_option position (crystalObject (init\<lparr>currentTask := 2\<rparr>)) = Some (Vector3 0 0 0) \<and>
   checkCurrentTaskCompletion (setPlayerPosition (Vector3 0 0 0) (init\<lparr>currentTask := 2\<rparr>))
     = Inr (setPlayerPosition (Vector3 0 0 0) (init\<lparr>currentTask := 2\<rparr>))"
proof -
  have a: "currentTask (init\<lparr>currentTask := 2\<rparr>) = 2" by simp
  have b: "\<not> crystalInScene (init\<lparr>currentTask := 2\<rparr>)"
    by (simp add: crystalInScene_def init_def)
  have c: "map_option position (crystalObject (init\<lparr>currentTask := 2\<rparr>)) = Some (Vector3 0 0 0)"
    by (simp add: init_def)
  show ?thesis
    using hidden_crystal_no_transition [OF a b, of "Vector3 0 0 0"] a b c by simp
qed

subsection \<open>The last task\<close>

text \<open>
  C7. Once a run has reached task 4, a call returns without an error and changes nothing,
  a frame does nothing but move the player, and the task is 4 after any further events.
\<close>

theorem complete_is_terminal:
  assumes "currentTask (run init evs) = 4"
  shows "checkCurrentTaskCompletion (run init evs) = Inr (run init evs) \<and>
         checkCurrentTaskCompletion (setPlayerPosition pos (run init evs))
           = Inr (setPlayerPosition pos (run init evs)) \<and>
         animate (run init evs) pos = setPlayerPosition pos (run init evs) \<and>
         currentTask (run init (evs @ evs')) = 4"
proof -
  define g where "g = run init evs"
  have r: "ready g" unfolding g_def by (rule ready_run_init)
  have t: "currentTask g = 4" using assms by (simp add: g_def)
  have "currentTask (run g evs') = 4" using r t by (rule task4_stays)
  moreover have "checkCurrentTaskCompletion g = Inr g"
    using r t unfolding ready_def by (auto simp: check_defs andThen_def)
  moreover have "checkCurrentTaskCompletion (setPlayerPosition pos g) = Inr (setPlayerPosition pos g)"
    using r t unfolding ready_def by (auto simp: check_defs andThen_def setPlayerPosition_def)
  moreover have "animate g pos = setPlayerPosition pos g"
    using r t unfolding ready_def
    by (auto simp: check_defs andThen_def setPlayerPosition_def animate_def stateOf_def)
  ultimately show ?thesis by (simp add: g_def run_append)
qed

theorem complete_is_terminal_witness:
  "currentTask (run init [Frame (Vector3 15 5 20), Frame (Vector3 16.5 4 20),
                          Frame (Vector3 (-15) 1.75 (-12))]) = 4 \<and>
   animate (run init [Frame (Vector3 15 5 20), Frame (Vector3 16.5 4 20),
                      Frame (Vector3 (-15) 1.75 (-12))]) (Vector3 15 5 20)
     = setPlayerPosition (Vector3 15 5 20)
         (run init [Frame (Vector3 15 5 20), Frame (Vector3 16.5 4 20),
                    Frame (Vector3 (-15) 1.75 (-12))])"
proof -
  have t: "currentTask (run init [Frame (Vector3 15 5 20), Frame (Vector3 16.5 4 20),
                          Frame (Vector3 (-15) 1.75 (-12))]) = 4"
    by (simp only: run_to_task4) (simp add: init_def)
  show ?thesis using complete_is_terminal [OF t, of "Vector3 15 5 20" "[]"] t by simp
qed

subsection \<open>Applying effects twice\<close>

lemma spawnCrystal_twice: "spawnCrystal (stateOf (spawnCrystal g)) = spawnCrystal g"
  by (simp add: spawnCrystal_def stateOf_def Let_def split: option.splits)

lemma updateTaskUI_twice: "updateTaskUI (stateOf (updateTaskUI g)) = updateTaskUI g"
  by (simp add: updateTaskUI_def stateOf_def split: option.splits)

lemma shrineReached_twice: "shrineReached (stateOf (shrineReached g)) = shrineReached g"
  by (cases "shrineTarget g"; cases "crystalObject g"; cases "taskInfoElement g")
     (auto simp: effect_defs stateOf_def option.map_comp comp_def split: option.splits)

lemma crystalCollected_twice: "crystalCollected (stateOf (crystalCollected g)) = crystalCollected g"
  by (cases "crystalObject g"; cases "taskInfoElement g")
     (auto simp: effect_defs stateOf_def)

lemma crystalDelivered_twice: "crystalDelivered (stateOf (crystalDelivered g)) = crystalDelivered g"
  by (cases "elderPlaceholder g"; cases "taskInfoElement g")
     (auto simp: effect_defs stateOf_def option.map_comp comp_def)

text \<open>
  C8. \<open>spawnCrystal\<close>, \<open>updateTaskUI\<close> and the body of each of the three transitions,
  applied to the state that a first application left, return what the first application
  returned: the same state, and the same error if it threw.
\<close>

theorem effects_idempotent:
  "spawnCrystal (stateOf (spawnCrystal g)) = spawnCrystal g \<and>
   updateTaskUI (stateOf (updateTaskUI g)) = updateTaskUI g \<and>
   shrineReached (stateOf (shrineReached g)) = shrineReached g \<and>
   crystalCollected (stateOf (crystalCollected g)) = crystalCollected g \<and>
   crystalDelivered (stateOf (crystalDelivered g)) = crystalDelivered g"
  by (simp add: spawnCrystal_twice updateTaskUI_twice shrineReached_twice
      crystalCollected_twice crystalDelivered_twice)

theorem effects_idempotent_witness:
  "shrineReached (stateOf (shrineReached init)) = shrineReached init \<and>
   map_option in_scene (crystalObject (stateOf (shrineReached init))) = Some True \<and>
   map_option position (crystalObject (stateOf (shrineReached init))) = Some (Vector3 16.5 4 20) \<and>
   currentTask (stateOf (shrineReached init)) = 2"
proof -
  have "map_option in_scene (crystalObject (stateOf (shrineReached init))) = Some True \<and>
   map_option position (crystalObject (stateOf (shrineReached init))) = Some (Vector3 16.5 4 20) \<and>
   currentTask (stateOf (shrineReached init)) = 2"
    by (simp add: effect_defs run_defs)
  with effects_idempotent [of init] show ?thesis by simp
qed

subsection \<open>The objective text\<close>

text \<open>
  C9. When the paragraph exists, \<open>updateTaskUI\<close> writes a text fixed by the task and by
  \<open>hasCrystal\<close>: one string each for the tasks 1, 2 and 4, two strings for task 3 (one
  with the crystal, one without), and one string for every other task. Only in task 3
  does \<open>hasCrystal\<close> matter.
\<close>

theorem text_by_task_and_crystal:
  assumes "taskInfoElement g = Some old"
  shows "updateTaskUI g = Inr (g\<lparr>taskInfoElement := Some (taskText (currentTask g) (hasCrystal g))\<rparr>) \<and>
         taskText 1 c = ''Task 1: Fly to the Ancient Shrine (Yellow Orb)'' \<and>
         taskText 2 c = ''Task 2: Collect the Sacred Crystal (Blue Crystal)'' \<and>
         taskText 3 True = ''Task 3: Deliver the Crystal to the Elder (Grey Capsule) at the Village (Green Platform)'' \<and>
         taskText 3 False = ''Task 3: Find the Elder... (Missing Crystal)'' \<and>
         taskText 4 c = ''All Tasks Complete! The tribe is safe for now.'' \<and>
         (n \<noteq> 1 \<and> n \<noteq> 2 \<and> n \<noteq> 3 \<and> n \<noteq> 4 \<longrightarrow> taskText n c = ''No current task.'') \<and>
         (n \<noteq> 3 \<longrightarrow> taskText n c = taskText n c')"
  using assms by (simp add: updateTaskUI_def taskText_def)

theorem text_by_task_and_crystal_witness:
  "taskInfoElement (stateOf (updateTaskUI init)) = Some ''Task 1: Fly to the Ancient Shrine (Yellow Orb)'' \<and>
   taskText 7 False = ''No current task.''"
proof -
  have a: "taskInfoElement init = Some ''Loading assets...''" by (simp add: init_def)
  have b: "currentTask init = 1" "hasCrystal init = False" by (simp_all add: init_def)
  show ?thesis
    using text_by_task_and_crystal [OF a, of False 7 True] b by (simp add: stateOf_def)
qed

text \<open>Two states in task 3 that differ in \<open>hasCrystal\<close> get different texts.\<close>

theorem text_by_task_alone_counterexample:
  "currentTask (init\<lparr>currentTask := 3, hasCrystal := True\<rparr>)
     = currentTask (init\<lparr>currentTask := 3, hasCrystal := False\<rparr>) \<and>
   taskInfoElement (stateOf (updateTaskUI (init\<lparr>currentTask := 3, hasCrystal := True\<rparr>)))
     = Some ''Task 3: Deliver the Crystal to the Elder (Grey Capsule) at the Village (Green Platform)'' \<and>
   taskInfoElement (stateOf (updateTaskUI (init\<lparr>currentTask := 3, hasCrystal := False\<rparr>)))
     = Some ''Task 3: Find the Elder... (Missing Crystal)''"
  by (simp add: updateTaskUI_def taskText_def stateOf_def init_def)

subsection \<open>The crystal in the scene\<close>

text \<open>
  C10. The crystal is not in the scene after \<open>init\<close>. In every state of a run it is in
  the scene exactly when the task is 2; an event puts it into the scene exactly when it
  takes the task from 1 to 2, and takes it out exactly when it takes the task from 2 to 3.
\<close>

theorem crystal_in_scene_iff_task2:
  "\<not> crystalInScene init \<and>
   (crystalInScene (run init evs) \<longleftrightarrow> currentTask (run init evs) = 2) \<and>
   ((\<not> crystalInScene (run init evs) \<and> crystalInScene (step (run init evs) ev)) \<longleftrightarrow>
      (currentTask (run init evs) = 1 \<and> currentTask (step (run init evs) ev) = 2)) \<and>
   ((crystalInScene (run init evs) \<and> \<not> crystalInScene (step (run init evs) ev)) \<longleftrightarrow>
      (currentTask (run init evs) = 2 \<and> currentTask (step (run init evs) ev) = 3))"
proof -
  define g where "g = run init evs"
  have r: "ready g" unfolding g_def by (rule ready_run_init)
  have r': "ready (step g ev)" using r by (rule ready_step)
  have a: "crystalInScene g \<longleftrightarrow> currentTask g = 2"
    using r by (auto simp: ready_def crystalInScene_def)
  have b: "crystalInScene (step g ev) \<longleftrightarrow> currentTask (step g ev) = 2"
    using r' by (auto simp: ready_def crystalInScene_def)
  have t: "currentTask g = 1 \<or> currentTask g = 2 \<or> currentTask g = 3 \<or> currentTask g = 4"
    using r by (auto simp: ready_def)
  have i: "\<not> crystalInScene init" by (simp add: crystalInScene_def init_def)
  show ?thesis
    unfolding g_def [symmetric]
    using a b t i step_task [OF r, of ev] by auto
qed

theorem crystal_in_scene_iff_task2_witness:
  "crystalInScene (run init [Frame (Vector3 15 5 20)]) \<and>
   currentTask (run init [Frame (Vector3 15 5 20)]) = 2 \<and>
   \<not> crystalInScene (step (run init [Frame (Vector3 15 5 20)]) (Frame (Vector3 16.5 4 20))) \<and>
   currentTask (step (run init [Frame (Vector3 15 5 20)]) (Frame (Vector3 16.5 4 20))) = 3"
proof -
  have t: "currentTask (run init [Frame (Vector3 15 5 20)]) = 2"
    by (simp only: run_to_task2) (simp add: init_def)
  have s: "step (run init [Frame (Vector3 15 5 20)]) (Frame (Vector3 16.5 4 20))
           = run init [Frame (Vector3 15 5 20), Frame (Vector3 16.5 4 20)]"
    by simp
  have t': "currentTask (step (run init [Frame (Vector3 15 5 20)]) (Frame (Vector3 16.5 4 20))) = 3"
    by (simp only: s run_to_task3) (simp add: init_def)
  show ?thesis
    using crystal_in_scene_iff_task2 [of "[Frame (Vector3 15 5 20)]" "Frame (Vector3 16.5 4 20)"] t t'
    by simp
qed

end
